theory Spec2Isabelle
  imports Complex_Main "HOL-Library.Product_Lexorder"
begin

section \<open>Data model of the dashboard (app.py)\<close>

text \<open>
  The program keeps its data in pandas frames. A frame is modelled as the list of its
  rows, in order; a column-wise pandas expression becomes a function of one row that is
  mapped over the list.

  Numbers are exact reals: every float of the program is taken finite and the rounding
  and overflow of float64 arithmetic are not modelled. A missing number (pandas NaN) is
  \<open>None\<close>. A cell of an untyped (object) column is blank, a number or a text. The row
  arithmetic of the loader is modelled once more on float64 values with their infinities
  and NaN, in a section of its own.
\<close>

datatype cell = Null | NumC real | StrC string

text \<open>
  A calendar date is (year, month, day); a time stamp is a date with the nanoseconds
  since midnight. Both are compared lexicographically, which is the order of time.
  \<open>pd.to_datetime\<close> of a date is that date at midnight.
\<close>

type_synonym date = "int \<times> int \<times> int"
type_synonym timestamp = "date \<times> int"

definition to_datetime :: "date \<Rightarrow> timestamp" where
  "to_datetime d = (d, 0)"

definition dt_year :: "timestamp \<Rightarrow> int" where
  "dt_year t = fst (fst t)"

definition dt_month :: "timestamp \<Rightarrow> int" where
  "dt_month t = fst (snd (fst t))"

definition dt_quarter :: "timestamp \<Rightarrow> int" where
  "dt_quarter t = (dt_month t - 1) div 3 + 1"

text \<open>Decimal digits of a natural number, for the "YYYY-MM" label of a monthly period.\<close>

fun digits :: "nat \<Rightarrow> nat \<Rightarrow> string" where
  "digits 0 n = []"
| "digits (Suc k) n = digits k (n div 10) @ [''0123456789'' ! (n mod 10)]"

definition period_M_str :: "timestamp \<Rightarrow> string" where
  "period_M_str t = digits 4 (nat (dt_year t)) @ ''-'' @ digits 2 (nat (dt_month t))"

datatype error = KeyError string | AttributeError | DivisionByZero | ValueError

subsection \<open>The frame read from the spreadsheet\<close>

text \<open>
  \<open>load_and_prepare\<close> starts with library calls (lines 23 to 31): \<open>read_excel\<close>,
  stripping the header names, \<open>to_datetime\<close> on InvoiceDate and \<open>to_numeric\<close> on
  Quantity, UnitPrice and CustomerID, each with \<open>errors="coerce"\<close>. The model starts
  after them: \<open>src_columns\<close> are the stripped header names, and in every row the
  InvoiceDate is a time stamp or NaT and the three numeric cells are numbers or NaN.
  The value a row holds for a column that is not in \<open>src_columns\<close> is never read.
\<close>

record src_row =
  InvoiceNo :: cell
  Description :: cell
  CustomerID :: "real option"
  Country :: cell
  Type :: cell
  StockCode :: cell
  InvoiceDate :: "timestamp option"
  src_Quantity :: "real option"
  src_UnitPrice :: "real option"

record src_frame =
  src_columns :: "string list"
  src_rows :: "src_row list"

subsection \<open>The normalized table\<close>

text \<open>
  One row of the frame \<open>load_and_prepare\<close> returns: the source's Quantity and UnitPrice
  and the columns the function adds. The other source columns stay in the frame
  unchanged and nothing reads them again.
\<close>

record row =
  Quantity :: "real option"
  UnitPrice :: "real option"
  Order_ID :: cell
  Product_Name :: cell
  Customer_ID :: int
  Region :: cell
  Segment :: cell
  Category :: cell
  Sub_Category :: cell
  Order_Date :: "timestamp option"
  Sales :: real
  Profit :: real
  Discount :: real
  Year :: "int option"
  Month :: "int option"
  Quarter :: "int option"
  Year_Month :: string
  Profit_Margin :: real

section \<open>Loading and preprocessing\<close>

text \<open>\<open>df.get(c)\<close>: the column, or None (a column of blanks once assigned) when absent.\<close>

definition df_get :: "src_frame \<Rightarrow> string \<Rightarrow> (src_row \<Rightarrow> cell) \<Rightarrow> src_row \<Rightarrow> cell" where
  "df_get df c field r = (if c \<in> set (src_columns df) then field r else Null)"

text \<open>\<open>Series.fillna(v)\<close> on one cell.\<close>

definition fillna :: "'a \<Rightarrow> 'a option \<Rightarrow> 'a" where
  "fillna v x = (case x of None \<Rightarrow> v | Some y \<Rightarrow> y)"

definition margin_map :: "cell \<rightharpoonup> real" where
  "margin_map = map_of [(StrC ''Retail'', 0.22), (StrC ''B2B'', 0.14)]"

text \<open>Division of two Python floats: a zero divisor is an error, kept as a value.\<close>

definition py_div :: "real \<Rightarrow> real \<Rightarrow> error + real" where
  "py_div a b = (if b = 0 then Inl DivisionByZero else Inr (a / b))"

text \<open>
  The lambda of lines 53 to 56:
  \<^verbatim>\<open>(r["Profit"] / r["Sales"]) * 100 if r["Sales"] != 0 else 0\<close>
\<close>

definition profit_margin_of :: "real \<Rightarrow> real \<Rightarrow> error + real" where
  "profit_margin_of profit sales =
     (if sales \<noteq> 0
      then (case py_div profit sales of Inl e \<Rightarrow> Inl e | Inr q \<Rightarrow> Inr (q * 100))
      else Inr 0)"

text \<open>\<open>astype(int)\<close> on a float: truncation towards zero.\<close>

definition astype_int :: "real \<Rightarrow> int" where
  "astype_int x = (if 0 \<le> x then \<lfloor>x\<rfloor> else - \<lfloor>- x\<rfloor>)"

text \<open>Line 42: \<^verbatim>\<open>df["Quantity"].fillna(0) * df["UnitPrice"].fillna(0)\<close>.\<close>

definition sales_of :: "src_row \<Rightarrow> real" where
  "sales_of r = fillna 0 (src_Quantity r) * fillna 0 (src_UnitPrice r)"

text \<open>Line 45: \<^verbatim>\<open>df["Sales"] * df["Segment"].map(margin_map).fillna(0.18)\<close>.\<close>

definition profit_of :: "src_frame \<Rightarrow> src_row \<Rightarrow> real" where
  "profit_of df r = sales_of r * fillna 0.18 (margin_map (df_get df ''Type'' Type r))"

text \<open>
  Lines 33 to 59 on one row, given the row's Profit Margin. The Customer ID is what
  line 59 leaves: the source's number truncated, or -1 where it is missing (also when
  the whole CustomerID column is absent).
\<close>

definition prepare_row :: "src_frame \<Rightarrow> src_row \<Rightarrow> real \<Rightarrow> row" where
  "prepare_row df r pm =
     \<lparr> Quantity = src_Quantity r,
       UnitPrice = src_UnitPrice r,
       Order_ID = df_get df ''InvoiceNo'' InvoiceNo r,
       Product_Name = df_get df ''Description'' Description r,
       Customer_ID =
         astype_int (fillna (-1)
           (if ''CustomerID'' \<in> set (src_columns df) then CustomerID r else None)),
       Region = df_get df ''Country'' Country r,
       Segment = df_get df ''Type'' Type r,
       Category = df_get df ''Type'' Type r,
       Sub_Category = df_get df ''StockCode'' StockCode r,
       Order_Date = InvoiceDate r,
       Sales = sales_of r,
       Profit = profit_of df r,
       Discount = 0,
       Year = map_option dt_year (InvoiceDate r),
       Month = map_option dt_month (InvoiceDate r),
       Quarter = map_option dt_quarter (InvoiceDate r),
       Year_Month = (case InvoiceDate r of None \<Rightarrow> ''NaT'' | Some t \<Rightarrow> period_M_str t),
       Profit_Margin = pm \<rparr>"

text \<open>
  \<open>df.apply(..., axis=1)\<close> with the lambda above: row by row, stopping at the first
  error. The Profit and Sales it reads are the ones lines 42 and 45 computed.
\<close>

fun apply_rows :: "src_frame \<Rightarrow> src_row list \<Rightarrow> error + row list" where
  "apply_rows df [] = Inr []"
| "apply_rows df (r # rs) =
     (case profit_margin_of (profit_of df r) (sales_of r) of
        Inl e \<Rightarrow> Inl e
      | Inr pm \<Rightarrow>
          (case apply_rows df rs of
             Inl e \<Rightarrow> Inl e
           | Inr out \<Rightarrow> Inr (prepare_row df r pm # out)))"

text \<open>
  The whole function. \<open>df["Quantity"]\<close> and \<open>df["UnitPrice"]\<close> (line 42) raise
  KeyError when the column is absent; without an InvoiceDate column, Order Date is a
  column of None and its \<open>.dt\<close> accessor (line 48) raises AttributeError. Line 58
  drops the rows whose Order Date is NaT.
\<close>

definition load_and_prepare :: "src_frame \<Rightarrow> error + row list" where
  "load_and_prepare df =
     (if ''Quantity'' \<notin> set (src_columns df) then Inl (KeyError ''Quantity'')
      else if ''UnitPrice'' \<notin> set (src_columns df) then Inl (KeyError ''UnitPrice'')
      else if ''InvoiceDate'' \<notin> set (src_columns df) then Inl AttributeError
      else (case apply_rows df (src_rows df) of
              Inl e \<Rightarrow> Inl e
            | Inr out \<Rightarrow> Inr (filter (\<lambda>r. Order_Date r \<noteq> None) out)))"

section \<open>Filtering\<close>

text \<open>
  The filter dictionary: the year is "All" or one year, the three selections are lists of
  cell values, and the date range is the pair the function unpacks into start and end.
\<close>

datatype year_choice = All_years | Only_year int

record filters =
  year :: year_choice
  category :: "cell list"
  region :: "cell list"
  segment :: "cell list"
  date_range :: "date \<times> date"

text \<open>\<open>Series.isin(values)\<close> on one cell.\<close>

definition isin :: "cell \<Rightarrow> cell list \<Rightarrow> bool" where
  "isin c vs = (c \<in> set vs)"

text \<open>Lines 67 and 68: a comparison with a missing Year is false.\<close>

definition year_step :: "year_choice \<Rightarrow> row list \<Rightarrow> row list" where
  "year_step y out =
     (case y of All_years \<Rightarrow> out | Only_year v \<Rightarrow> filter (\<lambda>r. Year r = Some v) out)"

text \<open>Lines 77 to 80 on one row: a comparison with NaT is false.\<close>

definition in_date_range :: "date \<times> date \<Rightarrow> row \<Rightarrow> bool" where
  "in_date_range dr r =
     (case Order_Date r of
        None \<Rightarrow> False
      | Some t \<Rightarrow> to_datetime (fst dr) \<le> t \<and> t \<le> to_datetime (snd dr))"

definition apply_filters :: "row list \<Rightarrow> filters \<Rightarrow> row list" where
  "apply_filters df f =
     (let out = year_step (year f) df;
          out = filter (\<lambda>r. isin (Category r) (category f)
                            \<and> isin (Region r) (region f)
                            \<and> isin (Segment r) (segment f)) out
      in filter (in_date_range (date_range f)) out)"

section \<open>Key figures\<close>

record kpis =
  total_sales :: real
  total_profit :: real
  total_orders :: nat
  total_customers :: nat
  avg_order_value :: "real option"
  profit_margin :: real

text \<open>
  \<open>Series.nunique()\<close>: the number of distinct values, missing ones left out; \<open>isna\<close>
  says which values of the column count as missing.
\<close>

definition nunique :: "('a \<Rightarrow> bool) \<Rightarrow> 'a list \<Rightarrow> nat" where
  "nunique isna xs = length (remdups (filter (\<lambda>x. \<not> isna x) xs))"

text \<open>\<open>Series.mean()\<close> of a column without missing values: NaN on an empty column.\<close>

definition mean :: "real list \<Rightarrow> real option" where
  "mean xs = (if xs = [] then None else Some (sum_list xs / real (length xs)))"

text \<open>
  Line 95 is the expression of the loader's lambda again, on the two totals:
  \<^verbatim>\<open>(profit / sales * 100) if sales != 0 else 0\<close>.
\<close>

definition calculate_kpis :: "row list \<Rightarrow> error + kpis" where
  "calculate_kpis df =
     (let sales = sum_list (map Sales df);
          profit = sum_list (map Profit df)
      in case profit_margin_of profit sales of
           Inl e \<Rightarrow> Inl e
         | Inr pm \<Rightarrow>
             Inr \<lparr> total_sales = sales,
                   total_profit = profit,
                   total_orders = nunique (\<lambda>c. c = Null) (map Order_ID df),
                   total_customers = nunique (\<lambda>_. False) (map Customer_ID df),
                   avg_order_value = mean (map Sales df),
                   profit_margin = pm \<rparr>)"

section \<open>Grouped breakdown (Details page)\<close>

datatype dimension =
  By_Product_Name | By_Sub_Category | By_Region | By_Segment | By_Customer_ID

fun group_key :: "dimension \<Rightarrow> row \<Rightarrow> cell" where
  "group_key By_Product_Name r = Product_Name r"
| "group_key By_Sub_Category r = Sub_Category r"
| "group_key By_Region r = Region r"
| "group_key By_Segment r = Segment r"
| "group_key By_Customer_ID r = NumC (of_int (Customer_ID r))"

text \<open>
  The result of a float division on whole columns, where a zero divisor gives an
  infinity or NaN instead of an error.
\<close>

datatype fval = Fin real | PosInf | NegInf | NaN

definition np_div :: "real \<Rightarrow> real \<Rightarrow> fval" where
  "np_div a b =
     (if b \<noteq> 0 then Fin (a / b)
      else if 0 < a then PosInf else if a < 0 then NegInf else NaN)"

fun times100 :: "fval \<Rightarrow> fval" where
  "times100 (Fin x) = Fin (x * 100)"
| "times100 v = v"

fun fillna0 :: "fval \<Rightarrow> fval" where
  "fillna0 NaN = Fin 0"
| "fillna0 v = v"

record agg_row =
  group :: cell
  g_Sales :: real
  g_Profit :: real
  g_Quantity :: real
  Orders :: nat

record group_row = agg_row +
  Profit_Margin_pct :: fval

text \<open>
  The rows of one group and their aggregates (lines 203 to 208): three sums, which skip
  missing values, and \<open>("Order ID", "count")\<close>, the number of non-missing Order IDs.
\<close>

definition group_rows :: "dimension \<Rightarrow> row list \<Rightarrow> cell \<Rightarrow> row list" where
  "group_rows d df k = filter (\<lambda>r. group_key d r = k) df"

definition agg :: "dimension \<Rightarrow> row list \<Rightarrow> cell \<Rightarrow> agg_row" where
  "agg d df k =
     (let rs = group_rows d df k
      in \<lparr> group = k,
           g_Sales = sum_list (map Sales rs),
           g_Profit = sum_list (map Profit rs),
           g_Quantity = sum_list (map (\<lambda>r. fillna 0 (Quantity r)) rs),
           Orders = length (filter (\<lambda>r. Order_ID r \<noteq> Null) rs) \<rparr>)"

text \<open>Lines 212 and 213 on one aggregated row.\<close>

definition with_margin :: "agg_row \<Rightarrow> group_row" where
  "with_margin a =
     \<lparr> group = group a, g_Sales = g_Sales a, g_Profit = g_Profit a,
       g_Quantity = g_Quantity a, Orders = Orders a,
       Profit_Margin_pct = fillna0 (times100 (np_div (g_Profit a) (g_Sales a))) \<rparr>"

text \<open>
  \<open>groupby\<close> makes one group per distinct non-missing key. \<open>sort_values\<close> then orders
  the groups by descending Sales; its default algorithm is not stable, so the source
  does not fix the order of groups with equal Sales, and the model takes one of them.
\<close>

definition grouped :: "dimension \<Rightarrow> row list \<Rightarrow> group_row list" where
  "grouped d df =
     map with_margin
       (sort_key (\<lambda>a. - g_Sales a)
          (map (agg d df) (remdups (filter (\<lambda>k. k \<noteq> Null) (map (group_key d) df)))))"

section \<open>Export\<close>

text \<open>
  A frame with its index, as the export sees it: the name of the index, its labels, the
  column names and the rows of values. A value is a cell of an untyped column (a group
  key, a header text), a float or an integer count. What \<open>to_excel\<close> writes is modelled
  as the grid of values of the sheet, header first; the encoding of the grid as xlsx
  bytes is the library's and is not modelled.
\<close>

datatype entry = Obj cell | Flt fval | Cnt nat

record frame =
  index_name :: "string option"
  index :: "entry list"
  columns :: "string list"
  data :: "entry list list"

definition to_excel :: "frame \<Rightarrow> bool \<Rightarrow> entry list list" where
  "to_excel df with_index =
     (if with_index
      then ((case index_name df of None \<Rightarrow> Obj Null | Some n \<Rightarrow> Obj (StrC n))
              # map (\<lambda>c. Obj (StrC c)) (columns df))
           # map2 (#) (index df) (data df)
      else map (\<lambda>c. Obj (StrC c)) (columns df) # data df)"

text \<open>Lines 99 to 103: \<^verbatim>\<open>df.to_excel(writer, index=False)\<close>.\<close>

definition to_excel_bytes :: "frame \<Rightarrow> entry list list" where
  "to_excel_bytes df = to_excel df False"

text \<open>
  \<open>reset_index()\<close>: the index becomes the first column, under its name ("index" for an
  unnamed one), and the rows are numbered anew. A name that is already a column is a
  ValueError.
\<close>

definition reset_index :: "frame \<Rightarrow> error + frame" where
  "reset_index df =
     (let n = (case index_name df of None \<Rightarrow> ''index'' | Some s \<Rightarrow> s)
      in if n \<in> set (columns df) then Inl ValueError
         else Inr \<lparr> index_name = None,
                    index = map Cnt [0..<length (data df)],
                    columns = n # columns df,
                    data = map2 (#) (index df) (data df) \<rparr>)"

text \<open>
  The frame \<open>grouped\<close> of lines 201 to 213 for given group rows: \<open>groupby\<close> makes the group
  keys the index, named after the grouping column (the strings of line 198); the columns
  are the four aggregates in the order of lines 204 to 207 and the margin added by
  line 212.
\<close>

fun dim_name :: "dimension \<Rightarrow> string" where
  "dim_name By_Product_Name = ''Product Name''"
| "dim_name By_Sub_Category = ''Sub-Category''"
| "dim_name By_Region = ''Region''"
| "dim_name By_Segment = ''Segment''"
| "dim_name By_Customer_ID = ''Customer ID''"

definition grouped_frame :: "dimension \<Rightarrow> group_row list \<Rightarrow> frame" where
  "grouped_frame d gs =
     \<lparr> index_name = Some (dim_name d),
       index = map (\<lambda>g. Obj (group g)) gs,
       columns = [''Sales'', ''Profit'', ''Quantity'', ''Orders'', ''Profit Margin %''],
       data = map (\<lambda>g. [Flt (Fin (g_Sales g)), Flt (Fin (g_Profit g)),
                         Flt (Fin (g_Quantity g)), Cnt (Orders g),
                         Flt (Profit_Margin_pct g)]) gs \<rparr>"

text \<open>
  Line 228, the export of the program: \<^verbatim>\<open>to_excel_bytes(grouped.reset_index())\<close>.
  \<open>to_excel_bytes\<close> itself writes no index; the index reaches the sheet as the first
  column that \<open>reset_index\<close> makes of it.
\<close>

definition download_excel :: "frame \<Rightarrow> error + entry list list" where
  "download_excel df =
     (case reset_index df of Inl e \<Rightarrow> Inl e | Inr df' \<Rightarrow> Inr (to_excel_bytes df'))"

section \<open>The row arithmetic on float64 values\<close>

text \<open>
  The model above computes with exact reals. Lines 42, 45 and 53 to 56 are modelled a
  second time on float64 values, where a number is finite, an infinity or NaN (NaN is
  also the missing value): a finite result whose magnitude reaches the overflow
  threshold of round-to-nearest, \<open>2^1024 - 2^970\<close>, is an infinity, and the infinities
  and NaN propagate as IEEE 754 says. The rounding of finite results stays unmodelled,
  and the two zeros are one value.
\<close>

definition fl_overflow :: real where
  "fl_overflow = 2 ^ 1024 - 2 ^ 970"

definition round_fl :: "real \<Rightarrow> fval" where
  "round_fl x =
     (if fl_overflow \<le> x then PosInf else if x \<le> - fl_overflow then NegInf else Fin x)"

fun fsign :: "fval \<Rightarrow> real" where
  "fsign (Fin a) = sgn a"
| "fsign PosInf = 1"
| "fsign NegInf = - 1"
| "fsign NaN = 0"

text \<open>The infinity of a given sign; NaN for the sign 0 (infinity times zero).\<close>

definition signed_inf :: "real \<Rightarrow> fval" where
  "signed_inf s = (if 0 < s then PosInf else if s < 0 then NegInf else NaN)"

fun fl_mul :: "fval \<Rightarrow> fval \<Rightarrow> fval" where
  "fl_mul NaN y = NaN"
| "fl_mul x NaN = NaN"
| "fl_mul (Fin a) (Fin b) = round_fl (a * b)"
| "fl_mul x y = signed_inf (fsign x * fsign y)"

text \<open>The quotient for a divisor that is not zero.\<close>

fun fl_div :: "fval \<Rightarrow> fval \<Rightarrow> fval" where
  "fl_div NaN y = NaN"
| "fl_div x NaN = NaN"
| "fl_div (Fin a) (Fin b) = round_fl (a / b)"
| "fl_div (Fin a) y = Fin 0"
| "fl_div x (Fin b) = signed_inf (fsign x * sgn b)"
| "fl_div x y = NaN"

text \<open>Division of two Python floats: a zero divisor is an error, as in \<open>py_div\<close>.\<close>

definition fl_truediv :: "fval \<Rightarrow> fval \<Rightarrow> error + fval" where
  "fl_truediv x y = (if y = Fin 0 then Inl DivisionByZero else Inr (fl_div x y))"

text \<open>Line 42 on the Quantity and the UnitPrice of one row.\<close>

definition fl_sales :: "fval \<Rightarrow> fval \<Rightarrow> fval" where
  "fl_sales q p = fl_mul (fillna0 q) (fillna0 p)"

text \<open>Line 45 on the Sales and the Segment of one row.\<close>

definition fl_profit :: "fval \<Rightarrow> cell \<Rightarrow> fval" where
  "fl_profit sales seg = fl_mul sales (Fin (fillna 0.18 (margin_map seg)))"

text \<open>
  The lambda of lines 53 to 56 on the Profit and the Sales of one row; \<open>NaN != 0\<close> and
  \<open>inf != 0\<close> are true.
\<close>

definition fl_profit_margin :: "fval \<Rightarrow> fval \<Rightarrow> error + fval" where
  "fl_profit_margin profit sales =
     (if sales \<noteq> Fin 0
      then (case fl_truediv profit sales of
              Inl e \<Rightarrow> Inl e
            | Inr v \<Rightarrow> Inr (fl_mul v (Fin 100)))
      else Inr (Fin 0))"

text \<open>The Profit Margin of the row with Quantity \<open>q\<close>, UnitPrice \<open>p\<close> and Segment \<open>seg\<close>.\<close>

definition fl_row_margin :: "fval \<Rightarrow> fval \<Rightarrow> cell \<Rightarrow> error + fval" where
  "fl_row_margin q p seg =
     fl_profit_margin (fl_profit (fl_sales q p) seg) (fl_sales q p)"

text \<open>A missing number of the exact model as a float64 value.\<close>

definition fl_of :: "real option \<Rightarrow> fval" where
  "fl_of x = (case x of None \<Rightarrow> NaN | Some v \<Rightarrow> Fin v)"

section \<open>A small data set\<close>

text \<open>
  Four lines of a spreadsheet, after the coercions: two lines of one invoice for France
  (the second without a customer number), one line for Spain without quantity and
  segment, and one line without a date, which the loader drops.
\<close>

definition example_frame :: src_frame where
  "example_frame =
     \<lparr> src_columns = [''InvoiceNo'', ''StockCode'', ''Description'', ''Quantity'',
                       ''InvoiceDate'', ''UnitPrice'', ''CustomerID'', ''Country'', ''Type''],
       src_rows =
         [\<lparr> InvoiceNo = NumC 536365, Description = StrC ''LANTERN'', CustomerID = Some 17850,
            Country = StrC ''France'', Type = StrC ''Retail'', StockCode = StrC ''71053'',
            InvoiceDate = Some ((2011, 3, 14), 0),
            src_Quantity = Some 2, src_UnitPrice = Some 10 \<rparr>,
          \<lparr> InvoiceNo = NumC 536365, Description = StrC ''HEART'', CustomerID = None,
            Country = StrC ''France'', Type = StrC ''B2B'', StockCode = StrC ''22752'',
            InvoiceDate = Some ((2011, 3, 15), 0),
            src_Quantity = Some 1, src_UnitPrice = Some 50 \<rparr>,
          \<lparr> InvoiceNo = NumC 536366, Description = StrC ''MUG'', CustomerID = Some 13047,
            Country = StrC ''Spain'', Type = Null, StockCode = StrC ''21730'',
            InvoiceDate = Some ((2011, 4, 2), 0),
            src_Quantity = None, src_UnitPrice = Some 4 \<rparr>,
          \<lparr> InvoiceNo = NumC 536367, Description = StrC ''CLOCK'', CustomerID = Some 13047,
            Country = StrC ''Spain'', Type = StrC ''Retail'', StockCode = StrC ''84879'',
            InvoiceDate = None,
            src_Quantity = Some 3, src_UnitPrice = Some 5 \<rparr>] \<rparr>"

definition example_row1 :: row where
  "example_row1 =
     \<lparr> Quantity = Some 2, UnitPrice = Some 10, Order_ID = NumC 536365,
       Product_Name = StrC ''LANTERN'', Customer_ID = 17850, Region = StrC ''France'',
       Segment = StrC ''Retail'', Category = StrC ''Retail'', Sub_Category = StrC ''71053'',
       Order_Date = Some ((2011, 3, 14), 0), Sales = 20, Profit = 4.4, Discount = 0,
       Year = Some 2011, Month = Some 3, Quarter = Some 1, Year_Month = ''2011-03'',
       Profit_Margin = 22 \<rparr>"

definition example_row2 :: row where
  "example_row2 =
     \<lparr> Quantity = Some 1, UnitPrice = Some 50, Order_ID = NumC 536365,
       Product_Name = StrC ''HEART'', Customer_ID = - 1, Region = StrC ''France'',
       Segment = StrC ''B2B'', Category = StrC ''B2B'', Sub_Category = StrC ''22752'',
       Order_Date = Some ((2011, 3, 15), 0), Sales = 50, Profit = 7, Discount = 0,
       Year = Some 2011, Month = Some 3, Quarter = Some 1, Year_Month = ''2011-03'',
       Profit_Margin = 14 \<rparr>"

definition example_row3 :: row where
  "example_row3 =
     \<lparr> Quantity = None, UnitPrice = Some 4, Order_ID = NumC 536366,
       Product_Name = StrC ''MUG'', Customer_ID = 13047, Region = StrC ''Spain'',
       Segment = Null, Category = Null, Sub_Category = StrC ''21730'',
       Order_Date = Some ((2011, 4, 2), 0), Sales = 0, Profit = 0, Discount = 0,
       Year = Some 2011, Month = Some 4, Quarter = Some 2, Year_Month = ''2011-04'',
       Profit_Margin = 0 \<rparr>"

definition example_table :: "row list" where
  "example_table = [example_row1, example_row2, example_row3]"

text \<open>A filter selection: the year 2011, both segments, France, up to 14 March 2011.\<close>

definition example_filters :: filters where
  "example_filters =
     \<lparr> year = Only_year 2011,
       category = [StrC ''Retail'', StrC ''B2B''],
       region = [StrC ''France''],
       segment = [StrC ''Retail'', StrC ''B2B''],
       date_range = ((2011, 1, 1), (2011, 3, 14)) \<rparr>"

section \<open>The loader, row by row\<close>

lemma digits_unfold:
  "0 < k \<Longrightarrow> digits k n = digits (k - 1) (n div 10) @ [''0123456789'' ! (n mod 10)]"
  by (cases k) simp_all

lemma digits_examples:
  "digits 4 2011 = ''2011''" "digits 2 3 = ''03''" "digits 2 4 = ''04''"
  by (simp_all add: digits_unfold)

text \<open>The loader turns the example frame into the example table.\<close>

lemma example_load: "load_and_prepare example_frame = Inr example_table"
  by (simp add: digits_examples example_frame_def example_table_def example_row1_def
    example_row2_def example_row3_def load_and_prepare_def prepare_row_def
    profit_margin_of_def py_div_def sales_of_def profit_of_def fillna_def margin_map_def
    df_get_def astype_int_def dt_year_def dt_month_def dt_quarter_def period_M_str_def)


lemma example_row2_in: "example_row2 \<in> set example_table"
  by (simp add: example_table_def)

text \<open>The guarded ratio never divides by zero, so it always returns a number.\<close>

lemma profit_margin_of_total:
  "profit_margin_of p s = Inr (if s = 0 then 0 else p / s * 100)"
  by (simp add: profit_margin_of_def py_div_def)

lemma apply_rows_total: "\<exists>out. apply_rows df rs = Inr out"
  by (induction rs) (auto simp: profit_margin_of_total)

text \<open>Every row of the \<open>apply\<close> pass is the image of a source row.\<close>

lemma apply_rows_elem:
  "apply_rows df rs = Inr out \<Longrightarrow> r \<in> set out \<Longrightarrow>
     \<exists>s \<in> set rs. \<exists>pm. r = prepare_row df s pm
        \<and> profit_margin_of (profit_of df s) (sales_of s) = Inr pm"
  by (induction rs arbitrary: out) (auto split: sum.splits)

lemma apply_rows_image:
  "apply_rows df rs = Inr out \<Longrightarrow> s \<in> set rs \<Longrightarrow> \<exists>pm. prepare_row df s pm \<in> set out"
  by (induction rs arbitrary: out) (auto split: sum.splits)

text \<open>Every row the loader returns is the image of a dated source row.\<close>

lemma load_elem:
  assumes "load_and_prepare df = Inr t" and "r \<in> set t"
  shows "\<exists>s \<in> set (src_rows df). \<exists>pm. r = prepare_row df s pm
        \<and> profit_margin_of (profit_of df s) (sales_of s) = Inr pm
        \<and> InvoiceDate s \<noteq> None"
proof -
  from assms(1) obtain out where out: "apply_rows df (src_rows df) = Inr out"
    and t: "t = filter (\<lambda>r. Order_Date r \<noteq> None) out"
    unfolding load_and_prepare_def by (auto split: if_splits sum.splits)
  from assms(2) t have "r \<in> set out" and d: "Order_Date r \<noteq> None" by auto
  with apply_rows_elem [OF out] obtain s pm where s: "s \<in> set (src_rows df)"
    and r: "r = prepare_row df s pm"
    and pm: "profit_margin_of (profit_of df s) (sales_of s) = Inr pm" by blast
  from d r have "InvoiceDate s \<noteq> None" by (simp add: prepare_row_def)
  with s r pm show ?thesis by blast
qed



text \<open>
  Claim C4. In every row the loader returns, Profit is Sales times the margin rate of the
  row's Segment: 0.22 for "Retail", 0.14 for "B2B" and 0.18 for every other value, a
  missing one included.
\<close>

theorem profit_is_sales_times_margin_rate:
  assumes "load_and_prepare df = Inr t" and "r \<in> set t"
  shows "Profit r = Sales r *
           (if Segment r = StrC ''Retail'' then 0.22
            else if Segment r = StrC ''B2B'' then 0.14 else 0.18)"
proof -
  from load_elem [OF assms] obtain s pm where "r = prepare_row df s pm" by blast
  then show ?thesis
    by (simp add: prepare_row_def profit_of_def fillna_def margin_map_def)
qed

theorem profit_is_sales_times_margin_rate_witness:
  "load_and_prepare example_frame = Inr example_table \<and> example_row2 \<in> set example_table
   \<and> Segment example_row2 = StrC ''B2B'' \<and> Profit example_row2 = Sales example_row2 * 0.14"
  using profit_is_sales_times_margin_rate [OF example_load example_row2_in]
    example_load example_row2_in
  by (simp add: example_row2_def)

text \<open>
  In the exact model the loader never fails with a division by zero, and in every row it
  returns the Profit Margin is 0 when Sales is 0 and Profit / Sales * 100 otherwise.
\<close>

lemma load_profit_margin_exact:
  "load_and_prepare df \<noteq> Inl DivisionByZero \<and>
   (\<forall>t r. load_and_prepare df = Inr t \<longrightarrow> r \<in> set t \<longrightarrow>
      (Sales r = 0 \<longrightarrow> Profit_Margin r = 0) \<and>
      (Sales r \<noteq> 0 \<longrightarrow> Profit_Margin r = Profit r / Sales r * 100))"
proof (intro conjI allI impI)
  obtain out where "apply_rows df (src_rows df) = Inr out"
    using apply_rows_total by blast
  then show "load_and_prepare df \<noteq> Inl DivisionByZero"
    by (simp add: load_and_prepare_def)
next
  fix t r assume a: "load_and_prepare df = Inr t" "r \<in> set t"
  from load_elem [OF a] obtain s pm where r: "r = prepare_row df s pm"
    and pm: "profit_margin_of (profit_of df s) (sales_of s) = Inr pm" by blast
  { assume "Sales r = 0"
    with r pm show "Profit_Margin r = 0"
      by (simp add: prepare_row_def profit_margin_of_total) }
  { assume "Sales r \<noteq> 0"
    with r pm show "Profit_Margin r = Profit r / Sales r * 100"
      by (simp add: prepare_row_def profit_margin_of_total) }
qed

lemma load_and_prepare_returns:
  assumes "''Quantity'' \<in> set (src_columns df)" and "''UnitPrice'' \<in> set (src_columns df)"
    and "''InvoiceDate'' \<in> set (src_columns df)"
  shows "\<exists>t. load_and_prepare df = Inr t"
proof -
  obtain out where "apply_rows df (src_rows df) = Inr out"
    using apply_rows_total by blast
  with assms show ?thesis by (simp add: load_and_prepare_def)
qed

section \<open>The filter\<close>

lemma year_step_idem: "year_step y (year_step y df) = year_step y df"
  by (cases y) (simp_all add: year_step_def)

lemma year_step_filter: "year_step y (filter P df) = filter P (year_step y df)"
  by (cases y) (auto simp add: year_step_def intro: filter_cong)

lemma year_step_subset: "set (year_step y df) \<subseteq> set df"
  by (cases y) (auto simp: year_step_def)

lemma example_filtered: "apply_filters example_table example_filters = [example_row1]"
  by (simp add: apply_filters_def example_filters_def example_table_def example_row1_def
     example_row2_def example_row3_def year_step_def isin_def in_date_range_def to_datetime_def)

text \<open>
  Claim C7. The filter is idempotent: filtering the result again with the same selection
  changes nothing.
\<close>

theorem apply_filters_idempotent:
  "apply_filters (apply_filters df f) f = apply_filters df f"
  by (simp add: apply_filters_def Let_def year_step_filter year_step_idem conj_commute
      cong: filter_cong)

text \<open>
  Claim C8. With an empty region selection the filter returns no row, whatever the year,
  the categories, the segments and the date range are.
\<close>

theorem empty_region_gives_no_rows:
  "region f = [] \<Longrightarrow> apply_filters df f = []"
  by (simp add: apply_filters_def isin_def)

theorem empty_region_gives_no_rows_witness:
  "region (example_filters\<lparr>region := []\<rparr>) = []
   \<and> apply_filters example_table (example_filters\<lparr>region := []\<rparr>) = []"
  using empty_region_gives_no_rows [of "example_filters\<lparr>region := []\<rparr>" example_table]
  by simp

lemma load_category_segment:
  assumes "load_and_prepare df = Inr t" and "r \<in> set t"
  shows "Category r = Segment r"
proof -
  from load_elem [OF assms] obtain s pm where "r = prepare_row df s pm" by blast
  then show ?thesis by (simp add: prepare_row_def)
qed

text \<open>
  Claim C9. In every row the loader returns, Category equals Segment (both are the Type
  column); so a filter whose category selection holds the same values as its segment
  selection restricts the rows by year, Region, Segment and date only.
\<close>

theorem category_equals_segment:
  assumes "load_and_prepare df = Inr t"
  shows "(\<forall>r \<in> set t. Category r = Segment r) \<and>
         (set (category f) = set (segment f) \<longrightarrow>
            apply_filters t f =
              filter (in_date_range (date_range f))
                (filter (\<lambda>r. isin (Region r) (region f) \<and> isin (Segment r) (segment f))
                   (year_step (year f) t)))"
proof (intro conjI impI)
  show all: "\<forall>r \<in> set t. Category r = Segment r"
    using load_category_segment [OF assms] by blast
  assume eq: "set (category f) = set (segment f)"
  have "filter (\<lambda>r. isin (Category r) (category f) \<and> isin (Region r) (region f)
                    \<and> isin (Segment r) (segment f)) (year_step (year f) t)
      = filter (\<lambda>r. isin (Region r) (region f) \<and> isin (Segment r) (segment f))
          (year_step (year f) t)"
  proof (rule filter_cong [OF refl])
    fix r assume "r \<in> set (year_step (year f) t)"
    then have "r \<in> set t" using year_step_subset by blast
    with all have "Category r = Segment r" by blast
    with eq show "(isin (Category r) (category f) \<and> isin (Region r) (region f)
                    \<and> isin (Segment r) (segment f))
                = (isin (Region r) (region f) \<and> isin (Segment r) (segment f))"
      by (auto simp: isin_def)
  qed
  then show "apply_filters t f =
              filter (in_date_range (date_range f))
                (filter (\<lambda>r. isin (Region r) (region f) \<and> isin (Segment r) (segment f))
                   (year_step (year f) t))"
    by (simp only: apply_filters_def Let_def)
qed

theorem category_equals_segment_witness:
  "load_and_prepare example_frame = Inr example_table
   \<and> set (category example_filters) = set (segment example_filters)
   \<and> Category example_row2 = Segment example_row2
   \<and> apply_filters example_table example_filters =
       filter (in_date_range (date_range example_filters))
         (filter (\<lambda>r. isin (Region r) (region example_filters)
                      \<and> isin (Segment r) (segment example_filters))
            (year_step (year example_filters) example_table))"
  using category_equals_segment [OF example_load, of example_filters] example_load
    example_row2_in
  by (simp add: example_filters_def)

section \<open>Key figures\<close>

lemma remdups_without:
  assumes "x \<in> set xs"
  shows "length (remdups xs) = Suc (length (remdups (filter (\<lambda>y. y \<noteq> x) xs)))"
proof -
  have "set (filter (\<lambda>y. y \<noteq> x) xs) = set xs - {x}" by auto
  then have "length (remdups (filter (\<lambda>y. y \<noteq> x) xs)) = card (set xs - {x})"
    by (simp add: length_remdups_card_conv)
  moreover have "card (set xs - {x}) = card (set xs) - 1"
    using assms by simp
  moreover have "0 < card (set xs)"
    using assms by (auto simp: card_gt_0_iff)
  ultimately show ?thesis by (simp add: length_remdups_card_conv)
qed

lemma calculate_kpis_total:
  "\<exists>k. calculate_kpis t = Inr k"
  by (simp add: calculate_kpis_def Let_def profit_margin_of_total)

lemma calculate_kpis_customers:
  "calculate_kpis t = Inr k \<Longrightarrow> total_customers k = length (remdups (map Customer_ID t))"
  by (auto simp add: calculate_kpis_def Let_def profit_margin_of_total nunique_def)

text \<open>
  Claim C10. When a dated source row has no customer number, the loader gives it the
  Customer ID -1, and the distinct customer count of the loaded table counts -1 once:
  it is one more than the number of distinct Customer IDs other than -1.
\<close>

theorem sentinel_counts_as_one_customer:
  assumes "load_and_prepare df = Inr t"
    and "s \<in> set (src_rows df)" and "InvoiceDate s \<noteq> None"
    and "''CustomerID'' \<in> set (src_columns df) \<longrightarrow> CustomerID s = None"
  shows "\<exists>k. calculate_kpis t = Inr k
           \<and> (\<exists>r \<in> set t. Customer_ID r = - 1)
           \<and> total_customers k
               = Suc (length (remdups (filter (\<lambda>c. c \<noteq> - 1) (map Customer_ID t))))"
proof -
  from assms(1) obtain out where out: "apply_rows df (src_rows df) = Inr out"
    and t: "t = filter (\<lambda>r. Order_Date r \<noteq> None) out"
    unfolding load_and_prepare_def by (auto split: if_splits sum.splits)
  from apply_rows_image [OF out assms(2)] obtain pm
    where "prepare_row df s pm \<in> set out" by blast
  with t assms(3) have in_t: "prepare_row df s pm \<in> set t"
    by (simp add: prepare_row_def)
  from assms(4) have c: "Customer_ID (prepare_row df s pm) = - 1"
    by (auto simp: prepare_row_def fillna_def astype_int_def)
  obtain k where k: "calculate_kpis t = Inr k" using calculate_kpis_total by blast
  from in_t c have "- 1 \<in> set (map Customer_ID t)" by force
  from remdups_without [OF this] calculate_kpis_customers [OF k]
  have "total_customers k
          = Suc (length (remdups (filter (\<lambda>c. c \<noteq> - 1) (map Customer_ID t))))" by simp
  with k in_t c show ?thesis by blast
qed

lemma example_customer_ids: "map Customer_ID example_table = [17850, - 1, 13047]"
  by (simp add: example_table_def example_row1_def example_row2_def example_row3_def)

theorem sentinel_counts_as_one_customer_witness:
  "load_and_prepare example_frame = Inr example_table
   \<and> src_rows example_frame ! 1 \<in> set (src_rows example_frame)
   \<and> InvoiceDate (src_rows example_frame ! 1) \<noteq> None
   \<and> CustomerID (src_rows example_frame ! 1) = None
   \<and> (\<exists>k. calculate_kpis example_table = Inr k \<and> total_customers k = 3)"
proof -
  have s: "src_rows example_frame ! 1 \<in> set (src_rows example_frame)"
    by (simp add: example_frame_def)
  have d: "InvoiceDate (src_rows example_frame ! 1) \<noteq> None"
    by (simp add: example_frame_def)
  have c: "CustomerID (src_rows example_frame ! 1) = None"
    by (simp add: example_frame_def)
  from sentinel_counts_as_one_customer [OF example_load s d] c
  obtain k where k: "calculate_kpis example_table = Inr k"
    and n: "total_customers k
              = Suc (length (remdups (filter (\<lambda>c. c \<noteq> - 1) (map Customer_ID example_table))))"
    by auto
  from n have "total_customers k = 3" by (simp add: example_customer_ids)
  with k s d c example_load show ?thesis by blast
qed

text \<open>
  Claim C1. On a table without rows the key figures are returned without an error; the
  two sums, the two distinct counts and the profit margin are 0, and the mean of Sales
  (avg_order_value) is NaN, not 0: line 94 takes the mean of an empty column without
  the guard that line 95 has.
\<close>

theorem kpis_of_empty_table:
  "calculate_kpis [] =
     Inr \<lparr> total_sales = 0, total_profit = 0, total_orders = 0, total_customers = 0,
           avg_order_value = None, profit_margin = 0 \<rparr>"
  by (simp add: calculate_kpis_def profit_margin_of_def nunique_def mean_def)

section \<open>Grouped breakdown\<close>

lemma example_group_france:
  "group_rows By_Region example_table (StrC ''France'') = [example_row1, example_row2]"
  by (simp add: group_rows_def example_table_def example_row1_def example_row2_def
      example_row3_def)

lemma example_group_spain:
  "group_rows By_Region example_table (StrC ''Spain'') = [example_row3]"
  by (simp add: group_rows_def example_table_def example_row1_def example_row2_def
      example_row3_def)

lemma example_keys:
  "remdups (filter (\<lambda>k. k \<noteq> Null) (map (group_key By_Region) example_table))
     = [StrC ''France'', StrC ''Spain'']"
  by (simp add: example_table_def example_row1_def example_row2_def example_row3_def)

text \<open>
  Claim C2. The Orders column of the breakdown is \<open>("Order ID", "count")\<close>, the number
  of rows of the group that have an Order ID. In the example table the France group has
  two rows of one invoice: Orders is 2, and the number of distinct Order IDs is 1.
\<close>

theorem grouped_orders_counts_rows:
  "map (\<lambda>g. (group g, Orders g)) (grouped By_Region example_table)
     = [(StrC ''France'', 2), (StrC ''Spain'', 1)]
   \<and> map Order_ID (group_rows By_Region example_table (StrC ''France''))
     = [NumC 536365, NumC 536365]
   \<and> nunique (\<lambda>c. c = Null)
        (map Order_ID (group_rows By_Region example_table (StrC ''France''))) = 1"
  by (simp add: grouped_def example_keys agg_def example_group_france example_group_spain
      with_margin_def nunique_def example_row1_def example_row2_def example_row3_def)

section \<open>Export\<close>

lemma dim_name_not_a_column:
  "dim_name d \<notin> set (columns (grouped_frame d gs))"
  by (cases d) (simp_all add: grouped_frame_def)

lemma example_grouped_rows:
  "grouped By_Region example_table =
     [\<lparr> group = StrC ''France'', g_Sales = 70, g_Profit = 11.4, g_Quantity = 3, Orders = 2,
        Profit_Margin_pct = Fin (114 / 7) \<rparr>,
      \<lparr> group = StrC ''Spain'', g_Sales = 0, g_Profit = 0, g_Quantity = 0, Orders = 1,
        Profit_Margin_pct = Fin 0 \<rparr>]"
  by (simp add: grouped_def example_keys agg_def example_group_france example_group_spain
      with_margin_def np_div_def fillna_def example_row1_def example_row2_def example_row3_def)

text \<open>
  Claim C3. For every grouped table the export of the Details page returns a sheet, and
  the sheet holds the table's index as the leading column, under the name of the grouping
  column, followed by the table's columns in the table's own order: the header is the
  index name and then the column names, and every row is the group key and then the
  row's values. No group is left out.
\<close>

theorem export_emits_index_then_columns:
  "download_excel (grouped_frame d gs) =
     Inr ((Obj (StrC (dim_name d)) # map (\<lambda>c. Obj (StrC c)) (columns (grouped_frame d gs)))
          # map2 (#) (index (grouped_frame d gs)) (data (grouped_frame d gs)))
   \<and> index (grouped_frame d gs) = map (\<lambda>g. Obj (group g)) gs
   \<and> length (data (grouped_frame d gs)) = length gs"
proof -
  have "reset_index (grouped_frame d gs) =
          Inr \<lparr> index_name = None,
                index = map Cnt [0..<length (data (grouped_frame d gs))],
                columns = dim_name d # columns (grouped_frame d gs),
                data = map2 (#) (index (grouped_frame d gs)) (data (grouped_frame d gs)) \<rparr>"
    using dim_name_not_a_column [of d gs]
    by (simp add: reset_index_def) (simp add: grouped_frame_def)
  then show ?thesis
    by (simp add: download_excel_def to_excel_bytes_def to_excel_def)
       (simp add: grouped_frame_def)
qed

theorem export_emits_index_then_columns_witness:
  "download_excel (grouped_frame By_Region (grouped By_Region example_table)) =
     Inr [[Obj (StrC ''Region''), Obj (StrC ''Sales''), Obj (StrC ''Profit''),
           Obj (StrC ''Quantity''), Obj (StrC ''Orders''), Obj (StrC ''Profit Margin %'')],
          [Obj (StrC ''France''), Flt (Fin 70), Flt (Fin 11.4), Flt (Fin 3), Cnt 2,
           Flt (Fin (114 / 7))],
          [Obj (StrC ''Spain''), Flt (Fin 0), Flt (Fin 0), Flt (Fin 0), Cnt 1,
           Flt (Fin 0)]]"
  using export_emits_index_then_columns [of By_Region "grouped By_Region example_table"]
  by (simp add: example_grouped_rows grouped_frame_def)

section \<open>The loader's Profit Margin on float64 values\<close>

lemma fl_overflow_big: "100 < fl_overflow"
  by (simp add: fl_overflow_def)

lemma round_fl_small: "\<bar>x\<bar> < fl_overflow \<Longrightarrow> round_fl x = Fin x"
  by (auto simp: round_fl_def)

lemma round_fl_Fin: "round_fl x = Fin y \<Longrightarrow> y = x \<and> \<bar>x\<bar> < fl_overflow"
  by (auto simp: round_fl_def split: if_splits)

text \<open>A finite product is below the overflow threshold.\<close>

lemma fl_mul_Fin: "fl_mul x y = Fin s \<Longrightarrow> \<bar>s\<bar> < fl_overflow"
  by (cases x; cases y) (auto simp: signed_inf_def dest: round_fl_Fin split: if_splits)

lemma margin_rate_bounds:
  "0 < fillna 0.18 (margin_map seg) \<and> fillna 0.18 (margin_map seg) \<le> (1::real)"
  by (simp add: fillna_def margin_map_def)

text \<open>With a finite non-zero Sales the margin is the rate times 100.\<close>

lemma fl_row_margin_finite:
  assumes "fl_sales q p = Fin s" and "s \<noteq> 0"
  shows "fl_row_margin q p seg = Inr (Fin (fillna 0.18 (margin_map seg) * 100))"
proof -
  let ?r = "fillna 0.18 (margin_map seg)"
  from assms(1) have s: "\<bar>s\<bar> < fl_overflow"
    unfolding fl_sales_def by (rule fl_mul_Fin)
  from margin_rate_bounds [of seg] have r: "0 < ?r" "?r \<le> 1" by simp_all
  have "\<bar>s * ?r\<bar> \<le> \<bar>s\<bar>"
    using r by (simp add: abs_mult mult_left_le)
  with s have pr: "fl_profit (Fin s) seg = Fin (s * ?r)"
    by (simp add: fl_profit_def round_fl_small)
  have "\<bar>?r\<bar> < fl_overflow" "\<bar>?r * 100\<bar> < fl_overflow"
    using r fl_overflow_big by simp_all
  then have "fl_mul (fl_div (Fin (s * ?r)) (Fin s)) (Fin 100) = Fin (?r * 100)"
    using assms(2) by (simp add: round_fl_small)
  with assms pr show ?thesis
    by (simp add: fl_row_margin_def fl_profit_margin_def fl_truediv_def)
qed

text \<open>
  The two models agree on a row whose exact Sales is below the overflow threshold: the
  float64 values are the exact Sales and Profit, and the margin is the exact one.
\<close>

lemma fl_agrees_with_exact:
  assumes "\<bar>sales_of r\<bar> < fl_overflow"
  shows "fl_sales (fl_of (src_Quantity r)) (fl_of (src_UnitPrice r)) = Fin (sales_of r)"
    and "fl_profit (Fin (sales_of r)) (df_get df ''Type'' Type r) = Fin (profit_of df r)"
    and "fl_row_margin (fl_of (src_Quantity r)) (fl_of (src_UnitPrice r))
           (df_get df ''Type'' Type r)
         = map_sum id Fin (profit_margin_of (profit_of df r) (sales_of r))"
proof -
  let ?seg = "df_get df ''Type'' Type r"
  let ?rate = "fillna 0.18 (margin_map ?seg)"
  show s: "fl_sales (fl_of (src_Quantity r)) (fl_of (src_UnitPrice r)) = Fin (sales_of r)"
    using assms fl_overflow_big
    by (cases "src_Quantity r"; cases "src_UnitPrice r")
       (simp_all add: fl_sales_def fl_of_def sales_of_def fillna_def round_fl_small)
  from margin_rate_bounds [of ?seg] have r: "0 < ?rate" "?rate \<le> 1" by simp_all
  have "\<bar>sales_of r * ?rate\<bar> \<le> \<bar>sales_of r\<bar>"
    using r by (simp add: abs_mult mult_left_le)
  with assms show "fl_profit (Fin (sales_of r)) ?seg = Fin (profit_of df r)"
    by (simp add: fl_profit_def profit_of_def round_fl_small)
  show "fl_row_margin (fl_of (src_Quantity r)) (fl_of (src_UnitPrice r)) ?seg
         = map_sum id Fin (profit_margin_of (profit_of df r) (sales_of r))"
  proof (cases "sales_of r = 0")
    case True
    with s show ?thesis
      by (simp add: fl_row_margin_def fl_profit_margin_def profit_margin_of_total)
  next
    case False
    with fl_row_margin_finite [OF s] show ?thesis
      by (simp add: profit_margin_of_total profit_of_def)
  qed
qed

text \<open>
  Two factors of \<open>10^200\<close> overflow: Sales and Profit are infinite, the guard passes,
  and the quotient of two infinities is NaN.
\<close>

theorem profit_margin_nan_on_overflow:
  "fl_sales (Fin (10 ^ 200)) (Fin (10 ^ 200)) = PosInf
   \<and> fl_profit PosInf (StrC ''Retail'') = PosInf
   \<and> fl_row_margin (Fin (10 ^ 200)) (Fin (10 ^ 200)) (StrC ''Retail'') = Inr NaN"
proof -
  have big: "fl_overflow \<le> 10 ^ 200 * 10 ^ 200"
    by (simp add: fl_overflow_def)
  then have s: "fl_sales (Fin (10 ^ 200)) (Fin (10 ^ 200)) = PosInf"
    by (simp add: fl_sales_def round_fl_def)
  have p: "fl_profit PosInf (StrC ''Retail'') = PosInf"
    by (simp add: fl_profit_def margin_map_def fillna_def signed_inf_def)
  from s p show ?thesis
    by (simp add: fl_row_margin_def fl_profit_margin_def fl_truediv_def)
qed

text \<open>
  Claim C6, amended. The computation never divides by zero; the Profit Margin is 0 when
  Sales is 0 and Profit / Sales * 100 otherwise; and when Sales is finite the result is a
  finite number. (When Sales is infinite or NaN the guard passes and the result is NaN.)
\<close>

theorem profit_margin_guarded_for_finite_sales:
  "fl_row_margin q p seg \<noteq> Inl DivisionByZero
   \<and> (fl_sales q p = Fin 0 \<longrightarrow> fl_row_margin q p seg = Inr (Fin 0))
   \<and> (fl_sales q p \<noteq> Fin 0 \<longrightarrow>
        fl_row_margin q p seg =
          Inr (fl_mul (fl_div (fl_profit (fl_sales q p) seg) (fl_sales q p)) (Fin 100)))
   \<and> (\<forall>s. fl_sales q p = Fin s \<longrightarrow> (\<exists>m. fl_row_margin q p seg = Inr (Fin m)))
   \<and> ((\<forall>s. fl_sales q p \<noteq> Fin s) \<longrightarrow> fl_row_margin q p seg = Inr NaN)"
proof (intro conjI allI impI)
  show "fl_row_margin q p seg \<noteq> Inl DivisionByZero"
    by (simp add: fl_row_margin_def fl_profit_margin_def fl_truediv_def)
  show "fl_row_margin q p seg = Inr (Fin 0)" if "fl_sales q p = Fin 0"
    using that by (simp add: fl_row_margin_def fl_profit_margin_def)
  show "fl_row_margin q p seg =
          Inr (fl_mul (fl_div (fl_profit (fl_sales q p) seg) (fl_sales q p)) (Fin 100))"
    if "fl_sales q p \<noteq> Fin 0"
    using that by (simp add: fl_row_margin_def fl_profit_margin_def fl_truediv_def)
  show "\<exists>m. fl_row_margin q p seg = Inr (Fin m)" if "fl_sales q p = Fin s" for s
  proof (cases "s = 0")
    case True
    with that show ?thesis by (simp add: fl_row_margin_def fl_profit_margin_def)
  next
    case False
    with that fl_row_margin_finite show ?thesis by blast
  qed
  show "fl_row_margin q p seg = Inr NaN" if "\<forall>s. fl_sales q p \<noteq> Fin s"
    using that margin_rate_bounds [of seg]
    by (cases "fl_sales q p")
       (simp_all add: fl_row_margin_def fl_profit_margin_def fl_truediv_def fl_profit_def
          signed_inf_def)
qed

theorem profit_margin_guarded_for_finite_sales_witness:
  "fl_sales (Fin 2) (Fin 10) = Fin 20 \<and> fl_sales (Fin 2) (Fin 10) \<noteq> Fin 0
   \<and> fl_row_margin (Fin 2) (Fin 10) (StrC ''Retail'') = Inr (Fin 22)
   \<and> fl_sales NaN (Fin 4) = Fin 0
   \<and> fl_row_margin NaN (Fin 4) Null = Inr (Fin 0)"
  using profit_margin_guarded_for_finite_sales [of "Fin 2" "Fin 10" "StrC ''Retail''"]
    profit_margin_guarded_for_finite_sales [of NaN "Fin 4" Null] fl_overflow_big
  by (simp add: fl_sales_def fl_profit_def round_fl_small margin_map_def fillna_def)

end
